theory Spec2Isabelle
  imports Main "HOL-Library.Sublist"
begin

section \<open>Values and documents\<close>

text \<open>
  A document of the database is a map from field names to dynamically typed values.
  The same values are what the client reads out of a snapshot (\<open>doc.data()\<close>).
\<close>

datatype val = VStr string | VInt int | VBool bool | VNull | VTimestamp int

type_synonym doc = "string \<rightharpoonup> val"

section \<open>The security rules (src/unnamed/part_000, lines 1-114)\<close>

subsection \<open>Evaluation of rule expressions\<close>

text \<open>
  A rule expression evaluates to a value or to an error (reading a field of \<open>null\<close>, a
  field the map does not have, an index out of range). An error is \<open>None\<close>. An
  \<open>allow\<close> statement grants a request exactly when its condition evaluates to
  \<open>true\<close>; an error grants nothing. The boolean connectives are the ones of the rules
  language: \<open>&&\<close> is false as soon as one side is false and \<open>||\<close> is true as soon
  as one side is true, also when the other side is an error.
\<close>

definition r_and :: "bool option \<Rightarrow> bool option \<Rightarrow> bool option" where
  "r_and a b =
     (if a = Some False \<or> b = Some False then Some False
      else if a = Some True \<and> b = Some True then Some True
      else None)"

definition r_or :: "bool option \<Rightarrow> bool option \<Rightarrow> bool option" where
  "r_or a b =
     (if a = Some True \<or> b = Some True then Some True
      else if a = Some False \<and> b = Some False then Some False
      else None)"

definition r_not :: "bool option \<Rightarrow> bool option" where
  "r_not a = map_option Not a"

definition r_eq :: "val option \<Rightarrow> val option \<Rightarrow> bool option" where
  "r_eq a b =
     (case a of None \<Rightarrow> None
      | Some x \<Rightarrow> (case b of None \<Rightarrow> None | Some y \<Rightarrow> Some (x = y)))"

definition r_in :: "val option \<Rightarrow> val list \<Rightarrow> bool option" where
  "r_in a xs = (case a of None \<Rightarrow> None | Some x \<Rightarrow> Some (List.member xs x))"

text \<open>\<open>s[i:j]\<close> and \<open>s[i]\<close> on strings; out of range is an error.\<close>

definition str_slice :: "string \<Rightarrow> nat \<Rightarrow> nat \<Rightarrow> val option" where
  "str_slice s i j =
     (if i \<le> j \<and> j \<le> length s then Some (VStr (take (j - i) (drop i s))) else None)"

definition str_index :: "string \<Rightarrow> nat \<Rightarrow> val option" where
  "str_index s i = (if i < length s then Some (VStr [s ! i]) else None)"

subsection \<open>Requests\<close>

text \<open>
  What a condition can see: \<open>request.auth\<close> (the uid, or \<open>null\<close>), \<open>resource\<close> (the
  stored document, or \<open>null\<close>), \<open>request.resource\<close> (the document as it would be
  after the write, or \<open>null\<close>), and the \<open>users\<close> collection, which \<open>get\<close> and
  \<open>exists\<close> read.
\<close>

record request =
  auth :: "string option"
  resource :: "doc option"
  request_resource :: "doc option"
  users :: "string \<rightharpoonup> doc"

definition auth_not_null :: "request \<Rightarrow> bool option" where
  "auth_not_null rq = Some (auth rq \<noteq> None)"

definition auth_uid :: "request \<Rightarrow> val option" where
  "auth_uid rq = map_option VStr (auth rq)"

definition not_null :: "doc option \<Rightarrow> bool option" where
  "not_null d = Some (d \<noteq> None)"

text \<open>\<open>d.data.k\<close>: an error when \<open>d\<close> is \<open>null\<close> or has no field \<open>k\<close>.\<close>

definition data_field :: "doc option \<Rightarrow> string \<Rightarrow> val option" where
  "data_field d k = (case d of None \<Rightarrow> None | Some m \<Rightarrow> m k)"

text \<open>\<open>k in d.data\<close>\<close>

definition has_field :: "doc option \<Rightarrow> string \<Rightarrow> bool option" where
  "has_field d k = (case d of None \<Rightarrow> None | Some m \<Rightarrow> Some (m k \<noteq> None))"

text \<open>\<open>get(/databases/$(database)/documents/users/$(request.auth.uid))\<close>: the caller's
  own profile, \<open>null\<close> when there is none.\<close>

definition get_caller :: "request \<Rightarrow> doc option" where
  "get_caller rq = (case auth rq of None \<Rightarrow> None | Some u \<Rightarrow> users rq u)"

definition exists_caller :: "request \<Rightarrow> bool option" where
  "exists_caller rq =
     (case auth rq of None \<Rightarrow> None | Some u \<Rightarrow> Some (users rq u \<noteq> None))"

definition caller_role :: "request \<Rightarrow> val option" where
  "caller_role rq = data_field (get_caller rq) ''role''"

subsection \<open>Allow statements and match blocks\<close>

datatype rule_method = Read | Write | Get | List | Create | Update | Delete

datatype operation = OpGet | OpList | OpCreate | OpUpdate | OpDelete

fun covers :: "rule_method \<Rightarrow> operation \<Rightarrow> bool" where
  "covers Read op = (op = OpGet \<or> op = OpList)"
| "covers Write op = (op = OpCreate \<or> op = OpUpdate \<or> op = OpDelete)"
| "covers Get op = (op = OpGet)"
| "covers List op = (op = OpList)"
| "covers Create op = (op = OpCreate)"
| "covers Update op = (op = OpUpdate)"
| "covers Delete op = (op = OpDelete)"

text \<open>
  An \<open>allow\<close> statement: its methods and its condition, which reads the wildcard of the
  match (the document id) and the request. A match block is the list of its statements;
  a request is allowed when one statement covers its operation and its condition is
  true, and denied otherwise.
\<close>

type_synonym allow_stmt = "rule_method list \<times> (string \<Rightarrow> request \<Rightarrow> bool option)"

definition grants :: "operation \<Rightarrow> string \<Rightarrow> request \<Rightarrow> allow_stmt \<Rightarrow> bool" where
  "grants op ident rq st =
     (list_ex (\<lambda>m. covers m op) (fst st) \<and> snd st ident rq = Some True)"

definition permits :: "allow_stmt list \<Rightarrow> operation \<Rightarrow> string \<Rightarrow> request \<Rightarrow> bool" where
  "permits stmts op ident rq = list_ex (grants op ident rq) stmts"

subsection \<open>match /articles/{articleId}\<close>

definition articles_read_published :: "string \<Rightarrow> request \<Rightarrow> bool option" where
  "articles_read_published articleId rq =
     r_eq (data_field (resource rq) ''status'') (Some (VStr ''published''))"

definition author_or_admin :: "request \<Rightarrow> bool option" where
  "author_or_admin rq =
     r_and (auth_not_null rq)
       (r_or (r_eq (auth_uid rq) (data_field (resource rq) ''authorId''))
             (r_eq (caller_role rq) (Some (VStr ''admin''))))"

definition articles_read_own :: "string \<Rightarrow> request \<Rightarrow> bool option" where
  "articles_read_own articleId rq = author_or_admin rq"

definition articles_create :: "string \<Rightarrow> request \<Rightarrow> bool option" where
  "articles_create articleId rq =
     r_and
       (r_and (auth_not_null rq)
              (r_in (caller_role rq) [VStr ''infowriter'', VStr ''admin'']))
       (r_eq (auth_uid rq) (data_field (request_resource rq) ''authorId''))"

definition articles_update :: "string \<Rightarrow> request \<Rightarrow> bool option" where
  "articles_update articleId rq = author_or_admin rq"

definition articles_delete :: "string \<Rightarrow> request \<Rightarrow> bool option" where
  "articles_delete articleId rq = author_or_admin rq"

definition articles_rules :: "allow_stmt list" where
  "articles_rules =
     [([Read], articles_read_published),
      ([Read], articles_read_own),
      ([Create], articles_create),
      ([Update], articles_update),
      ([Delete], articles_delete)]"

subsection \<open>match /writerRequests/{requestId}\<close>

definition owner_or_admin :: "request \<Rightarrow> bool option" where
  "owner_or_admin rq =
     r_and (auth_not_null rq)
       (r_or (r_eq (auth_uid rq) (data_field (resource rq) ''userId''))
             (r_eq (caller_role rq) (Some (VStr ''admin''))))"

definition writerRequests_read :: "string \<Rightarrow> request \<Rightarrow> bool option" where
  "writerRequests_read requestId rq = owner_or_admin rq"

definition writerRequests_create :: "string \<Rightarrow> request \<Rightarrow> bool option" where
  "writerRequests_create requestId rq =
     r_and (auth_not_null rq)
       (r_eq (auth_uid rq) (data_field (request_resource rq) ''userId''))"

definition writerRequests_update :: "string \<Rightarrow> request \<Rightarrow> bool option" where
  "writerRequests_update requestId rq =
     r_and (auth_not_null rq) (r_eq (caller_role rq) (Some (VStr ''admin'')))"

definition writerRequests_rules :: "allow_stmt list" where
  "writerRequests_rules =
     [([Read], writerRequests_read),
      ([Create], writerRequests_create),
      ([Update], writerRequests_update)]"

subsection \<open>match /users/{userId}\<close>

definition exists_admin :: "request \<Rightarrow> bool option" where
  "exists_admin rq =
     r_and (r_and (auth_not_null rq) (exists_caller rq))
       (r_eq (caller_role rq) (Some (VStr ''admin'')))"

definition users_read :: "string \<Rightarrow> request \<Rightarrow> bool option" where
  "users_read userId rq = auth_not_null rq"

definition users_create :: "string \<Rightarrow> request \<Rightarrow> bool option" where
  "users_create userId rq =
     r_and (auth_not_null rq) (r_eq (auth_uid rq) (Some (VStr userId)))"

definition users_update_self :: "string \<Rightarrow> request \<Rightarrow> bool option" where
  "users_update_self userId rq =
     r_and
       (r_and (auth_not_null rq) (r_eq (auth_uid rq) (Some (VStr userId))))
       (r_or (r_not (has_field (request_resource rq) ''role''))
             (r_eq (data_field (request_resource rq) ''role'')
                   (data_field (resource rq) ''role'')))"

definition users_update_admin :: "string \<Rightarrow> request \<Rightarrow> bool option" where
  "users_update_admin userId rq = exists_admin rq"

definition users_rules :: "allow_stmt list" where
  "users_rules =
     [([Read], users_read),
      ([Create], users_create),
      ([Update], users_update_self),
      ([Update], users_update_admin)]"

subsection \<open>match /savedArticles/{savedArticleId}\<close>

text \<open>The three lines on the document id (lines 66-68); \<open>request.auth.uid\<close> is an
  error when there is no caller.\<close>

definition id_starts_with_uid :: "string \<Rightarrow> request \<Rightarrow> bool option" where
  "id_starts_with_uid savedArticleId rq =
     (case auth rq of
        None \<Rightarrow> None
      | Some u \<Rightarrow>
          r_and
            (r_and (Some (length savedArticleId > length u))
                   (r_eq (str_slice savedArticleId 0 (length u)) (Some (VStr u))))
            (r_eq (str_index savedArticleId (length u)) (Some (VStr ''_''))))"

definition savedArticles_own :: "string \<Rightarrow> request \<Rightarrow> bool option" where
  "savedArticles_own savedArticleId rq =
     r_and (auth_not_null rq)
       (r_or
          (r_or (id_starts_with_uid savedArticleId rq)
                (r_and (not_null (resource rq))
                       (r_eq (auth_uid rq) (data_field (resource rq) ''userId''))))
          (r_and (not_null (request_resource rq))
                 (r_eq (auth_uid rq) (data_field (request_resource rq) ''userId''))))"

definition savedArticles_list :: "string \<Rightarrow> request \<Rightarrow> bool option" where
  "savedArticles_list savedArticleId rq = auth_not_null rq"

definition savedArticles_admin :: "string \<Rightarrow> request \<Rightarrow> bool option" where
  "savedArticles_admin savedArticleId rq = exists_admin rq"

definition savedArticles_rules :: "allow_stmt list" where
  "savedArticles_rules =
     [([Read, Write, Create, Delete], savedArticles_own),
      ([List], savedArticles_list),
      ([Read, Write, List], savedArticles_admin)]"

subsection \<open>match /notifications/{notificationId}\<close>

definition notifications_own :: "string \<Rightarrow> request \<Rightarrow> bool option" where
  "notifications_own notificationId rq =
     r_and (auth_not_null rq)
       (r_eq (auth_uid rq) (data_field (resource rq) ''userId''))"

definition notifications_create :: "string \<Rightarrow> request \<Rightarrow> bool option" where
  "notifications_create notificationId rq =
     r_and (auth_not_null rq)
       (r_or (r_eq (caller_role rq) (Some (VStr ''admin'')))
             (r_eq (auth_uid rq) (data_field (request_resource rq) ''userId'')))"

definition notifications_admin :: "string \<Rightarrow> request \<Rightarrow> bool option" where
  "notifications_admin notificationId rq = exists_admin rq"

definition notifications_rules :: "allow_stmt list" where
  "notifications_rules =
     [([Read], notifications_own),
      ([Update, Delete], notifications_own),
      ([Create], notifications_create),
      ([Read], notifications_admin)]"

subsection \<open>match /userActivity/{activityId}\<close>

definition userActivity_create :: "string \<Rightarrow> request \<Rightarrow> bool option" where
  "userActivity_create activityId rq = auth_not_null rq"

definition userActivity_read :: "string \<Rightarrow> request \<Rightarrow> bool option" where
  "userActivity_read activityId rq = owner_or_admin rq"

definition userActivity_rules :: "allow_stmt list" where
  "userActivity_rules =
     [([Create], userActivity_create),
      ([Read], userActivity_read)]"

subsection \<open>The service\<close>

text \<open>The match blocks by collection; a path no block matches has no statement, so every
  request on it is denied.\<close>

definition rules_of :: "string \<Rightarrow> allow_stmt list" where
  "rules_of collection =
     (if collection = ''articles'' then articles_rules
      else if collection = ''writerRequests'' then writerRequests_rules
      else if collection = ''users'' then users_rules
      else if collection = ''savedArticles'' then savedArticles_rules
      else if collection = ''notifications'' then notifications_rules
      else if collection = ''userActivity'' then userActivity_rules
      else [])"

definition allowed :: "string \<Rightarrow> operation \<Rightarrow> string \<Rightarrow> request \<Rightarrow> bool" where
  "allowed collection op ident rq = permits (rules_of collection) op ident rq"

section \<open>The session permission cache (src/src/contexts/AuthContext.tsx)\<close>

subsection \<open>Profiles and permissions\<close>

text \<open>
  The TypeScript types are erased when the program runs: \<open>role\<close> is whatever the user
  document holds (\<open>data.role || 'user'\<close>), so it is a value here, and the \<open>switch\<close> of
  \<open>generatePermissions\<close> keeps its \<open>default\<close> branch. A \<open>Date\<close> is its time in
  milliseconds; an optional field that is \<open>undefined\<close> is \<open>None\<close>.
\<close>

record UserProfile =
  uid :: string
  email :: string
  displayName :: val
  role :: val
  emailVerified :: bool
  profilePicture :: val
  createdAt :: "int option"
  updatedAt :: "int option"
  requestedWriterAccess :: "val option"

record CachedPermissions =
  canCreateArticles :: bool
  canManageUsers :: bool
  canAccessAdmin :: bool
  canEditAnyArticle :: bool
  canDeleteArticles :: bool
  canApproveWriters :: bool
  canViewAnalytics :: bool
  dashboardRoute :: string

definition basePermissions :: CachedPermissions where
  "basePermissions =
     \<lparr>canCreateArticles = False,
      canManageUsers = False,
      canAccessAdmin = False,
      canEditAnyArticle = False,
      canDeleteArticles = False,
      canApproveWriters = False,
      canViewAnalytics = False,
      dashboardRoute = ''/dashboard''\<rparr>"

definition generatePermissions :: "val \<Rightarrow> CachedPermissions" where
  "generatePermissions r =
     (if r = VStr ''admin'' then
        \<lparr>canCreateArticles = True,
         canManageUsers = True,
         canAccessAdmin = True,
         canEditAnyArticle = True,
         canDeleteArticles = True,
         canApproveWriters = True,
         canViewAnalytics = True,
         dashboardRoute = ''/dashboard''\<rparr>
      else if r = VStr ''infowriter'' then
        basePermissions
          \<lparr>canCreateArticles := True,
           canEditAnyArticle := False,
           canViewAnalytics := False,
           dashboardRoute := ''/dashboard''\<rparr>
      else
        basePermissions\<lparr>dashboardRoute := ''/dashboard''\<rparr>)"

subsection \<open>The cache in localStorage\<close>

type_synonym storage = "string \<rightharpoonup> string"

definition USER_PROFILE :: string where
  "USER_PROFILE = ''infonest_user_profile''"

definition PERMISSIONS :: string where
  "PERMISSIONS = ''infonest_permissions''"

definition LAST_UPDATED :: string where
  "LAST_UPDATED = ''infonest_cache_updated''"

definition CACHE_KEYS :: "string list" where
  "CACHE_KEYS = [USER_PROFILE, PERMISSIONS, LAST_UPDATED]"

definition CACHE_EXPIRY :: int where
  "CACHE_EXPIRY = 5 * 60 * 1000"

definition clearCache :: "storage \<Rightarrow> storage" where
  "clearCache ls = fold (\<lambda>k m. m(k := None)) CACHE_KEYS ls"

text \<open>
  \<open>getCachedData\<close> returns the value read and the storage it leaves. The functions of the
  platform are parameters: \<open>parse\<close> is \<open>JSON.parse\<close> at the type read (\<open>None\<close> when it
  throws, which the \<open>catch\<close> turns into \<open>null\<close>, or when it yields \<open>null\<close>),
  \<open>parseInt\<close> is \<open>None\<close> for \<open>NaN\<close>, and \<open>now\<close> is the reading of \<open>Date.now()\<close>.
  \<open>!cached\<close> holds for a missing key and for the empty string. A comparison with
  \<open>NaN\<close> is false, so an unreadable time stamp does not expire the entry. The
  storage is a map from keys to texts, and reading, writing and removing a key do not
  throw.
\<close>

definition getCachedData ::
  "(string \<Rightarrow> 'a option) \<Rightarrow> (string \<Rightarrow> int option) \<Rightarrow> int \<Rightarrow> storage \<Rightarrow> string
     \<Rightarrow> 'a option \<times> storage" where
  "getCachedData parse parseInt now ls key =
     (case ls key of
        None \<Rightarrow> (None, ls)
      | Some cached \<Rightarrow>
          if cached = [] then (None, ls)
          else
            (case ls LAST_UPDATED of
               None \<Rightarrow> (None, ls)
             | Some lastUpdated \<Rightarrow>
                 if lastUpdated = [] then (None, ls)
                 else
                   (case parseInt lastUpdated of
                      None \<Rightarrow> (parse cached, ls)
                    | Some t \<Rightarrow>
                        if now - t > CACHE_EXPIRY then (None, clearCache ls)
                        else (parse cached, ls))))"

text \<open>\<open>stringify\<close> is \<open>JSON.stringify\<close> at the type written, \<open>toString\<close> the decimal
  text of a number.\<close>

definition setCachedData ::
  "('a \<Rightarrow> string) \<Rightarrow> (int \<Rightarrow> string) \<Rightarrow> int \<Rightarrow> storage \<Rightarrow> string \<Rightarrow> 'a \<Rightarrow> storage" where
  "setCachedData stringify toString now ls key data =
     (ls(key \<mapsto> stringify data))(LAST_UPDATED \<mapsto> toString now)"

record platform =
  json_of_profile :: "UserProfile \<Rightarrow> string"
  json_of_permissions :: "CachedPermissions \<Rightarrow> string"
  profile_of_json :: "string \<Rightarrow> UserProfile option"
  permissions_of_json :: "string \<Rightarrow> CachedPermissions option"
  parse_int :: "string \<Rightarrow> int option"
  int_to_string :: "int \<Rightarrow> string"

subsection \<open>The provider's state\<close>

text \<open>The signed-in user as the authentication provider gives it.\<close>

record FirebaseUser =
  fb_uid :: string
  fb_email :: "string option"
  fb_displayName :: "string option"
  fb_emailVerified :: bool

record AuthState =
  user :: "FirebaseUser option"
  userProfile :: "UserProfile option"
  permissions :: "CachedPermissions option"
  loading :: bool
  profileLoading :: bool
  localStorage :: storage

datatype exn = ReloadFailed | FetchFailed | TypeError

text \<open>JavaScript's truthiness, and \<open>a || b\<close> with \<open>a\<close> possibly \<open>undefined\<close>.\<close>

fun truthy :: "val \<Rightarrow> bool" where
  "truthy (VStr s) = (s \<noteq> [])"
| "truthy (VInt n) = (n \<noteq> 0)"
| "truthy (VBool b) = b"
| "truthy VNull = False"
| "truthy (VTimestamp t) = True"

definition or_else :: "val option \<Rightarrow> val \<Rightarrow> val" where
  "or_else a b = (case a of None \<Rightarrow> b | Some v \<Rightarrow> if truthy v then v else b)"

text \<open>\<open>x?.toDate()\<close>: \<open>undefined\<close> for \<open>undefined\<close> and \<open>null\<close>, the date of a
  time stamp, and a TypeError for any other value, which has no method \<open>toDate\<close>.\<close>

fun toDate :: "val option \<Rightarrow> exn + int option" where
  "toDate None = Inr None"
| "toDate (Some VNull) = Inr None"
| "toDate (Some (VTimestamp t)) = Inr (Some t)"
| "toDate (Some v) = Inl TypeError"

text \<open>\<open>email.split('@')[0]\<close>\<close>

definition before_at :: "string \<Rightarrow> string" where
  "before_at s = takeWhile (\<lambda>c. c \<noteq> CHR ''@'') s"

text \<open>The object literal of lines 191-201 (and 264-274), its fields in order.\<close>

definition buildProfile :: "FirebaseUser \<Rightarrow> doc \<Rightarrow> exn + UserProfile" where
  "buildProfile fu data =
     (case toDate (data ''createdAt'') of
        Inl e \<Rightarrow> Inl e
      | Inr created \<Rightarrow>
          (case toDate (data ''updatedAt'') of
             Inl e \<Rightarrow> Inl e
           | Inr updated \<Rightarrow>
               Inr \<lparr>uid = fb_uid fu,
                    email = (case fb_email fu of None \<Rightarrow> [] | Some e \<Rightarrow> e),
                    displayName =
                      or_else (data ''displayName'')
                        (or_else (map_option VStr (fb_displayName fu))
                           (or_else (map_option (\<lambda>e. VStr (before_at e)) (fb_email fu))
                              (VStr []))),
                    role = or_else (data ''role'') (VStr ''user''),
                    emailVerified = fb_emailVerified fu,
                    profilePicture = or_else (data ''profilePicture'') (VStr []),
                    createdAt = created,
                    updatedAt = updated,
                    requestedWriterAccess = data ''requestedWriterAccess''\<rparr>))"

text \<open>Lines 203-210 and 276-283: derive, cache, set.\<close>

definition storeProfile :: "platform \<Rightarrow> int \<Rightarrow> int \<Rightarrow> UserProfile \<Rightarrow> AuthState \<Rightarrow> AuthState" where
  "storeProfile pf t1 t2 profile st =
     (let userPermissions = generatePermissions (role profile);
          ls1 = setCachedData (json_of_profile pf) (int_to_string pf) t1
                  (localStorage st) USER_PROFILE profile;
          ls2 = setCachedData (json_of_permissions pf) (int_to_string pf) t2
                  ls1 PERMISSIONS userPermissions
      in st\<lparr>userProfile := Some profile,
            permissions := Some userPermissions,
            localStorage := ls2\<rparr>)"

definition dropProfile :: "AuthState \<Rightarrow> AuthState" where
  "dropProfile st =
     st\<lparr>userProfile := None,
        permissions := None,
        localStorage := clearCache (localStorage st)\<rparr>"

text \<open>
  \<open>loadUserProfile\<close>. Its inputs are what the two awaited calls do: \<open>reloaded\<close> is
  \<open>Inl\<close> of the exception when \<open>firebaseUser.reload()\<close> throws, \<open>fetched\<close> is the
  snapshot \<open>getDoc\<close> returns (\<open>None\<close> when the document does not exist) or the
  exception it throws; \<open>firebaseUser\<close> holds the fields of the user object as they are
  once \<open>reload\<close> is over, which is when they are read; \<open>t1\<close> and \<open>t2\<close> are the clock
  readings of the two cache writes. \<open>loadUserProfile_try\<close> is the body of the \<open>try\<close>;
  \<open>Inl\<close> is a thrown exception. The result of \<open>loadUserProfile\<close> is \<open>Inl\<close> when
  its promise rejects.
\<close>

definition loadUserProfile_try ::
  "platform \<Rightarrow> FirebaseUser \<Rightarrow> exn + unit \<Rightarrow> exn + doc option \<Rightarrow> int \<Rightarrow> int \<Rightarrow> AuthState
     \<Rightarrow> exn + AuthState" where
  "loadUserProfile_try pf firebaseUser reloaded fetched t1 t2 st =
     (case reloaded of
        Inl e \<Rightarrow> Inl e
      | Inr _ \<Rightarrow>
          (case fetched of
             Inl e \<Rightarrow> Inl e
           | Inr profileSnap \<Rightarrow>
               (case profileSnap of
                  Some data \<Rightarrow>
                    (case buildProfile firebaseUser data of
                       Inl e \<Rightarrow> Inl e
                     | Inr profile \<Rightarrow> Inr (storeProfile pf t1 t2 profile st))
                | None \<Rightarrow> Inr (dropProfile st))))"

definition loadUserProfile ::
  "platform \<Rightarrow> FirebaseUser \<Rightarrow> exn + unit \<Rightarrow> exn + doc option \<Rightarrow> int \<Rightarrow> int \<Rightarrow> AuthState
     \<Rightarrow> exn + AuthState" where
  "loadUserProfile pf firebaseUser reloaded fetched t1 t2 st0 =
     (let st = st0\<lparr>profileLoading := True\<rparr> in
      case loadUserProfile_try pf firebaseUser reloaded fetched t1 t2 st of
        Inr st' \<Rightarrow> Inr (st'\<lparr>profileLoading := False\<rparr>)
      | Inl error \<Rightarrow> Inr ((dropProfile st)\<lparr>profileLoading := False\<rparr>))"

text \<open>Lines 170-178: the first effect reads both entries, the profile first, and sets
  the state when both are there.\<close>

definition initFromCache :: "platform \<Rightarrow> int \<Rightarrow> int \<Rightarrow> AuthState \<Rightarrow> AuthState" where
  "initFromCache pf now1 now2 st =
     (case getCachedData (profile_of_json pf) (parse_int pf) now1 (localStorage st)
             USER_PROFILE of
        (cachedProfile, ls1) \<Rightarrow>
          (case getCachedData (permissions_of_json pf) (parse_int pf) now2 ls1 PERMISSIONS of
             (cachedPermissions, ls2) \<Rightarrow>
               (case cachedProfile of
                  None \<Rightarrow> st\<lparr>localStorage := ls2\<rparr>
                | Some p \<Rightarrow>
                    (case cachedPermissions of
                       None \<Rightarrow> st\<lparr>localStorage := ls2\<rparr>
                     | Some c \<Rightarrow>
                         st\<lparr>userProfile := Some p,
                            permissions := Some c,
                            localStorage := ls2\<rparr>))))"

text \<open>Lines 226-232; \<open>currentUser\<close> is \<open>auth.currentUser\<close>.\<close>

definition refreshProfile ::
  "platform \<Rightarrow> FirebaseUser option \<Rightarrow> exn + unit \<Rightarrow> exn + doc option \<Rightarrow> int \<Rightarrow> int
     \<Rightarrow> AuthState \<Rightarrow> exn + AuthState" where
  "refreshProfile pf currentUser reloaded fetched t1 t2 st =
     (case currentUser of
        None \<Rightarrow> Inr st
      | Some cu \<Rightarrow>
          loadUserProfile pf cu reloaded fetched t1 t2
            (st\<lparr>localStorage := clearCache (localStorage st)\<rparr>))"

text \<open>Lines 236-250: the listener on the authentication state.\<close>

definition authStateChanged ::
  "platform \<Rightarrow> FirebaseUser option \<Rightarrow> exn + unit \<Rightarrow> exn + doc option \<Rightarrow> int \<Rightarrow> int
     \<Rightarrow> AuthState \<Rightarrow> exn + AuthState" where
  "authStateChanged pf firebaseUser reloaded fetched t1 t2 st0 =
     (let st = st0\<lparr>loading := True, user := firebaseUser\<rparr> in
      case firebaseUser of
        Some fu \<Rightarrow>
          (case loadUserProfile pf fu reloaded fetched t1 t2 st of
             Inl e \<Rightarrow> Inl e
           | Inr st' \<Rightarrow> Inr (st'\<lparr>loading := False\<rparr>))
      | None \<Rightarrow> Inr ((dropProfile (st\<lparr>user := None\<rparr>))\<lparr>loading := False\<rparr>))"

text \<open>Lines 256-288: the callback of the subscription to the user's own document. There
  is a subscription only while \<open>user?.uid\<close> is truthy; a snapshot of a document
  that does not exist changes nothing.\<close>

definition profileSnapshot ::
  "platform \<Rightarrow> doc option \<Rightarrow> int \<Rightarrow> int \<Rightarrow> AuthState \<Rightarrow> exn + AuthState" where
  "profileSnapshot pf snapshot t1 t2 st =
     (case user st of
        None \<Rightarrow> Inr st
      | Some u \<Rightarrow>
          if fb_uid u = [] then Inr st
          else
            (case snapshot of
               None \<Rightarrow> Inr st
             | Some data \<Rightarrow>
                 (case buildProfile u data of
                    Inl e \<Rightarrow> Inl e
                  | Inr profile \<Rightarrow> Inr (storeProfile pf t1 t2 profile st))))"

text \<open>
  The provider as a transition system: each callback runs as one step on the state. An
  exception that leaves a callback is thrown before the callback has set anything, so the
  state stays as it was.
\<close>

datatype event =
    InitFromCache int int
  | AuthStateChanged "FirebaseUser option" "exn + unit" "exn + doc option" int int
  | ProfileSnapshot "doc option" int int
  | RefreshProfile "FirebaseUser option" "exn + unit" "exn + doc option" int int

fun step :: "platform \<Rightarrow> event \<Rightarrow> AuthState \<Rightarrow> exn + AuthState" where
  "step pf (InitFromCache now1 now2) st = Inr (initFromCache pf now1 now2 st)"
| "step pf (AuthStateChanged fu reloaded fetched t1 t2) st =
     authStateChanged pf fu reloaded fetched t1 t2 st"
| "step pf (ProfileSnapshot snapshot t1 t2) st = profileSnapshot pf snapshot t1 t2 st"
| "step pf (RefreshProfile cu reloaded fetched t1 t2) st =
     refreshProfile pf cu reloaded fetched t1 t2 st"

fun run :: "platform \<Rightarrow> event list \<Rightarrow> AuthState \<Rightarrow> AuthState" where
  "run pf [] st = st"
| "run pf (ev # evs) st =
     (case step pf ev st of Inl e \<Rightarrow> run pf evs st | Inr st' \<Rightarrow> run pf evs st')"

text \<open>Lines 163-167: the state the provider starts in, over whatever the storage holds.\<close>

definition initialState :: "storage \<Rightarrow> AuthState" where
  "initialState ls =
     \<lparr>user = None, userProfile = None, permissions = None,
      loading = True, profileLoading = False, localStorage = ls\<rparr>"

text \<open>A state is consistent when it has no permissions without a profile.\<close>

definition consistent :: "AuthState \<Rightarrow> bool" where
  "consistent st = (permissions st = None \<or> userProfile st \<noteq> None)"

text \<open>Lines 290-293: the role checks the context exposes.\<close>

definition isAdmin :: "AuthState \<Rightarrow> bool" where
  "isAdmin st = (case permissions st of None \<Rightarrow> False | Some p \<Rightarrow> canAccessAdmin p)"

definition isInfoWriter :: "AuthState \<Rightarrow> bool" where
  "isInfoWriter st =
     (case permissions st of
        None \<Rightarrow> False
      | Some p \<Rightarrow> canCreateArticles p \<and> \<not> canAccessAdmin p)"

definition isUser :: "AuthState \<Rightarrow> bool" where
  "isUser st =
     (case userProfile st of None \<Rightarrow> False | Some pr \<Rightarrow> role pr = VStr ''user'')"

section \<open>Properties of the security rules\<close>

subsection \<open>Unfolding a match block\<close>

lemmas rule_expr_defs =
  r_and_def r_or_def r_not_def r_eq_def r_in_def auth_not_null_def auth_uid_def
  not_null_def data_field_def has_field_def get_caller_def exists_caller_def caller_role_def

lemma permits_Nil: "permits [] op ident rq = False"
  by (simp add: permits_def)

lemma permits_Cons:
  "permits (st # stmts) op ident rq = (grants op ident rq st \<or> permits stmts op ident rq)"
  by (simp add: permits_def)

lemma exists_admin_iff:
  "(exists_admin rq = Some True) =
     (\<exists>u p. auth rq = Some u \<and> users rq u = Some p \<and> p ''role'' = Some (VStr ''admin''))"
  by (auto simp add: exists_admin_def rule_expr_defs split: option.splits if_splits)

subsection \<open>Users\<close>

text \<open>
  C1 (role elevation only by an admin) does not hold of the \<open>create\<close> statement of
  \<open>/users/{userId}\<close> (line 48): it checks the caller's uid against the document id and
  nothing else. A signed-in caller \<open>u1\<close> with no stored profile, hence no admin role,
  is allowed to create \<open>/users/u1\<close> with \<open>role = 'admin'\<close>. The theorem evaluates the
  rules at that request.
\<close>

theorem users_create_self_admin:
  "allowed ''users'' OpCreate ''u1''
     \<lparr>auth = Some ''u1'', resource = None,
      request_resource = Some [''role'' \<mapsto> VStr ''admin''], users = Map.empty\<rparr>
   \<and> exists_admin
     \<lparr>auth = Some ''u1'', resource = None,
      request_resource = Some [''role'' \<mapsto> VStr ''admin''], users = Map.empty\<rparr> = Some False"
  by (simp add: allowed_def rules_of_def users_rules_def permits_Cons grants_def users_create_def
      exists_admin_def rule_expr_defs)

text \<open>The two \<open>update\<close> statements do keep the invariant: an allowed update that leaves
  the document with a role other than the stored one comes from a caller whose own
  profile has the role admin.\<close>

lemma users_update_role_change:
  assumes "permits users_rules OpUpdate userId rq"
    and "resource rq = Some old" and "request_resource rq = Some new"
    and "new ''role'' \<noteq> None" and "new ''role'' \<noteq> old ''role''"
  shows "\<exists>u p. auth rq = Some u \<and> users rq u = Some p \<and> p ''role'' = Some (VStr ''admin'')"
  using assms
  by (auto simp add: users_rules_def permits_Cons permits_Nil grants_def users_update_self_def
        users_update_admin_def exists_admin_def rule_expr_defs
      split: option.splits if_splits)

text \<open>
  C3. The caller \<open>u\<close> updates the user document whose id is \<open>u\<close>; \<open>old\<close> is the stored
  document and \<open>new\<close> the proposed one. The update is allowed exactly when \<open>new\<close> has
  no role field, or its role is the stored role, or the caller's stored profile has the
  role admin (the second \<open>update\<close> statement, the exception the claim names). So a
  self-update that changes the role is denied unless the caller is an admin.
\<close>

theorem users_self_update:
  assumes "auth rq = Some u" and "resource rq = Some old" and "request_resource rq = Some new"
  shows "(permits users_rules OpUpdate u rq \<longleftrightarrow>
           (new ''role'' = None \<or> new ''role'' = old ''role''
            \<or> (\<exists>p. users rq u = Some p \<and> p ''role'' = Some (VStr ''admin''))))
       \<and> (new ''role'' \<noteq> None \<and> new ''role'' \<noteq> old ''role''
            \<and> \<not> (\<exists>p. users rq u = Some p \<and> p ''role'' = Some (VStr ''admin''))
          \<longrightarrow> \<not> permits users_rules OpUpdate u rq)"
  using assms
  by (auto simp add: users_rules_def permits_Cons permits_Nil grants_def users_update_self_def
        users_update_admin_def exists_admin_def rule_expr_defs
      split: option.splits if_splits)

theorem users_self_update_witness:
  "\<not> permits users_rules OpUpdate ''u1''
       \<lparr>auth = Some ''u1'',
        resource = Some [''role'' \<mapsto> VStr ''user'', ''displayName'' \<mapsto> VStr ''Ann''],
        request_resource = Some [''role'' \<mapsto> VStr ''admin'', ''displayName'' \<mapsto> VStr ''Ann''],
        users = [''u1'' \<mapsto> [''role'' \<mapsto> VStr ''user'', ''displayName'' \<mapsto> VStr ''Ann'']]\<rparr>
   \<and> permits users_rules OpUpdate ''u1''
       \<lparr>auth = Some ''u1'',
        resource = Some [''role'' \<mapsto> VStr ''user'', ''displayName'' \<mapsto> VStr ''Ann''],
        request_resource = Some [''role'' \<mapsto> VStr ''user'', ''displayName'' \<mapsto> VStr ''Bea''],
        users = [''u1'' \<mapsto> [''role'' \<mapsto> VStr ''user'', ''displayName'' \<mapsto> VStr ''Ann'']]\<rparr>
   \<and> permits users_rules OpUpdate ''u1''
       \<lparr>auth = Some ''u1'',
        resource = Some [''role'' \<mapsto> VStr ''admin''],
        request_resource = Some [''role'' \<mapsto> VStr ''user''],
        users = [''u1'' \<mapsto> [''role'' \<mapsto> VStr ''admin'']]\<rparr>"
  using
    users_self_update [of
       "\<lparr>auth = Some ''u1'',
        resource = Some [''role'' \<mapsto> VStr ''user'', ''displayName'' \<mapsto> VStr ''Ann''],
        request_resource = Some [''role'' \<mapsto> VStr ''admin'', ''displayName'' \<mapsto> VStr ''Ann''],
        users = [''u1'' \<mapsto> [''role'' \<mapsto> VStr ''user'', ''displayName'' \<mapsto> VStr ''Ann'']]\<rparr>"
       "''u1''"
       "[''role'' \<mapsto> VStr ''user'', ''displayName'' \<mapsto> VStr ''Ann'']"
       "[''role'' \<mapsto> VStr ''admin'', ''displayName'' \<mapsto> VStr ''Ann'']"]
    users_self_update [of
       "\<lparr>auth = Some ''u1'',
        resource = Some [''role'' \<mapsto> VStr ''user'', ''displayName'' \<mapsto> VStr ''Ann''],
        request_resource = Some [''role'' \<mapsto> VStr ''user'', ''displayName'' \<mapsto> VStr ''Bea''],
        users = [''u1'' \<mapsto> [''role'' \<mapsto> VStr ''user'', ''displayName'' \<mapsto> VStr ''Ann'']]\<rparr>"
       "''u1''"
       "[''role'' \<mapsto> VStr ''user'', ''displayName'' \<mapsto> VStr ''Ann'']"
       "[''role'' \<mapsto> VStr ''user'', ''displayName'' \<mapsto> VStr ''Bea'']"]
    users_self_update [of
       "\<lparr>auth = Some ''u1'',
        resource = Some [''role'' \<mapsto> VStr ''admin''],
        request_resource = Some [''role'' \<mapsto> VStr ''user''],
        users = [''u1'' \<mapsto> [''role'' \<mapsto> VStr ''admin'']]\<rparr>"
       "''u1''"
       "[''role'' \<mapsto> VStr ''admin'']"
       "[''role'' \<mapsto> VStr ''user'']"]
  by simp

subsection \<open>Articles\<close>

text \<open>
  C4. Creating an article is allowed exactly when there is a caller \<open>u\<close>, the caller's
  stored profile has the role infowriter or admin, and the proposed document's
  \<open>authorId\<close> is \<open>u\<close>. In particular a proposed \<open>authorId\<close> other than the caller's uid
  is denied whatever the caller's role, admin included.
\<close>

theorem articles_create_iff:
  "(permits articles_rules OpCreate articleId rq \<longleftrightarrow>
     (\<exists>u. auth rq = Some u
        \<and> (\<exists>p. users rq u = Some p
              \<and> (p ''role'' = Some (VStr ''infowriter'') \<or> p ''role'' = Some (VStr ''admin'')))
        \<and> (\<exists>d. request_resource rq = Some d \<and> d ''authorId'' = Some (VStr u))))
   \<and> (auth rq = Some u' \<and> request_resource rq = Some d' \<and> d' ''authorId'' \<noteq> Some (VStr u')
        \<longrightarrow> \<not> permits articles_rules OpCreate articleId rq)"
  by (auto simp add: articles_rules_def permits_Cons permits_Nil grants_def articles_create_def
        rule_expr_defs
      split: option.splits if_splits)

theorem articles_create_iff_witness:
  "permits articles_rules OpCreate ''a1''
     \<lparr>auth = Some ''w1'', resource = None,
      request_resource = Some [''authorId'' \<mapsto> VStr ''w1'', ''status'' \<mapsto> VStr ''draft''],
      users = [''w1'' \<mapsto> [''role'' \<mapsto> VStr ''infowriter'']]\<rparr>
   \<and> \<not> permits articles_rules OpCreate ''a2''
     \<lparr>auth = Some ''adm'', resource = None,
      request_resource = Some [''authorId'' \<mapsto> VStr ''w1'', ''status'' \<mapsto> VStr ''draft''],
      users = [''adm'' \<mapsto> [''role'' \<mapsto> VStr ''admin'']]\<rparr>"
  using
    articles_create_iff [of "''a1''"
      "\<lparr>auth = Some ''w1'', resource = None,
        request_resource = Some [''authorId'' \<mapsto> VStr ''w1'', ''status'' \<mapsto> VStr ''draft''],
        users = [''w1'' \<mapsto> [''role'' \<mapsto> VStr ''infowriter'']]\<rparr>"
      "''w1''" "[''authorId'' \<mapsto> VStr ''w1'', ''status'' \<mapsto> VStr ''draft'']"]
    articles_create_iff [of "''a2''"
      "\<lparr>auth = Some ''adm'', resource = None,
        request_resource = Some [''authorId'' \<mapsto> VStr ''w1'', ''status'' \<mapsto> VStr ''draft''],
        users = [''adm'' \<mapsto> [''role'' \<mapsto> VStr ''admin'']]\<rparr>"
      "''adm''" "[''authorId'' \<mapsto> VStr ''w1'', ''status'' \<mapsto> VStr ''draft'']"]
  by simp

text \<open>
  C5. Reading a stored article \<open>art\<close> is allowed exactly when its status is
  \<open>published\<close> (whoever asks, signed in or not), or there is a caller who is the
  article's author or whose stored profile has the role admin. Hence an article that
  is not published is unreadable without a caller, and by a caller who is neither its
  author nor an admin.
\<close>

theorem articles_read_iff:
  assumes "resource rq = Some art"
  shows "(permits articles_rules OpGet articleId rq \<longleftrightarrow>
           (art ''status'' = Some (VStr ''published'')
            \<or> (\<exists>u. auth rq = Some u
                  \<and> (art ''authorId'' = Some (VStr u)
                     \<or> (\<exists>p. users rq u = Some p \<and> p ''role'' = Some (VStr ''admin''))))))
       \<and> (art ''status'' \<noteq> Some (VStr ''published'') \<and> auth rq = None
            \<longrightarrow> \<not> permits articles_rules OpGet articleId rq)
       \<and> (art ''status'' \<noteq> Some (VStr ''published'') \<and> auth rq = Some u'
            \<and> art ''authorId'' \<noteq> Some (VStr u')
            \<and> \<not> (\<exists>p. users rq u' = Some p \<and> p ''role'' = Some (VStr ''admin''))
            \<longrightarrow> \<not> permits articles_rules OpGet articleId rq)"
  using assms
  by (auto simp add: articles_rules_def permits_Cons permits_Nil grants_def
        articles_read_published_def articles_read_own_def author_or_admin_def rule_expr_defs
      split: option.splits if_splits)

theorem articles_read_iff_witness:
  "permits articles_rules OpGet ''a1''
     \<lparr>auth = None,
      resource = Some [''authorId'' \<mapsto> VStr ''w1'', ''status'' \<mapsto> VStr ''published''],
      request_resource = None, users = Map.empty\<rparr>
   \<and> \<not> permits articles_rules OpGet ''a1''
     \<lparr>auth = None,
      resource = Some [''authorId'' \<mapsto> VStr ''w1'', ''status'' \<mapsto> VStr ''draft''],
      request_resource = None, users = Map.empty\<rparr>
   \<and> \<not> permits articles_rules OpGet ''a1''
     \<lparr>auth = Some ''u2'',
      resource = Some [''authorId'' \<mapsto> VStr ''w1'', ''status'' \<mapsto> VStr ''draft''],
      request_resource = None, users = [''u2'' \<mapsto> [''role'' \<mapsto> VStr ''user'']]\<rparr>
   \<and> permits articles_rules OpGet ''a1''
     \<lparr>auth = Some ''adm'',
      resource = Some [''authorId'' \<mapsto> VStr ''w1'', ''status'' \<mapsto> VStr ''draft''],
      request_resource = None, users = [''adm'' \<mapsto> [''role'' \<mapsto> VStr ''admin'']]\<rparr>"
  using
    articles_read_iff [of
      "\<lparr>auth = None,
        resource = Some [''authorId'' \<mapsto> VStr ''w1'', ''status'' \<mapsto> VStr ''published''],
        request_resource = None, users = Map.empty\<rparr>"
      "[''authorId'' \<mapsto> VStr ''w1'', ''status'' \<mapsto> VStr ''published'']" "''a1''" "''x''"]
    articles_read_iff [of
      "\<lparr>auth = None,
        resource = Some [''authorId'' \<mapsto> VStr ''w1'', ''status'' \<mapsto> VStr ''draft''],
        request_resource = None, users = Map.empty\<rparr>"
      "[''authorId'' \<mapsto> VStr ''w1'', ''status'' \<mapsto> VStr ''draft'']" "''a1''" "''x''"]
    articles_read_iff [of
      "\<lparr>auth = Some ''u2'',
        resource = Some [''authorId'' \<mapsto> VStr ''w1'', ''status'' \<mapsto> VStr ''draft''],
        request_resource = None, users = [''u2'' \<mapsto> [''role'' \<mapsto> VStr ''user'']]\<rparr>"
      "[''authorId'' \<mapsto> VStr ''w1'', ''status'' \<mapsto> VStr ''draft'']" "''a1''" "''u2''"]
    articles_read_iff [of
      "\<lparr>auth = Some ''adm'',
        resource = Some [''authorId'' \<mapsto> VStr ''w1'', ''status'' \<mapsto> VStr ''draft''],
        request_resource = None, users = [''adm'' \<mapsto> [''role'' \<mapsto> VStr ''admin'']]\<rparr>"
      "[''authorId'' \<mapsto> VStr ''w1'', ''status'' \<mapsto> VStr ''draft'']" "''a1''" "''adm''"]
  by simp

subsection \<open>Saved articles\<close>

lemma id_starts_with_uid_prefix:
  assumes a: "auth rq = Some u"
  shows "(id_starts_with_uid sid rq = Some True) = prefix (u @ ''_'') sid"
proof
  assume "id_starts_with_uid sid rq = Some True"
  with a have l: "length u < length sid" and t: "take (length u) sid = u"
    and c: "sid ! length u = CHR ''_''"
    by (auto simp add: id_starts_with_uid_def r_and_def r_eq_def str_slice_def str_index_def
        split: if_splits)
  from l have "sid = take (length u) sid @ sid ! length u # drop (Suc (length u)) sid"
    by (simp add: id_take_nth_drop)
  with t c have "sid = (u @ ''_'') @ drop (Suc (length u)) sid" by simp
  then show "prefix (u @ ''_'') sid" by (metis prefixI)
next
  assume "prefix (u @ ''_'') sid"
  then obtain r where "sid = u @ ''_'' @ r" by (auto simp add: prefix_def)
  with a show "id_starts_with_uid sid rq = Some True"
    by (simp add: id_starts_with_uid_def r_and_def r_eq_def str_slice_def str_index_def)
qed

lemma savedArticles_own_iff:
  "auth rq = Some u \<Longrightarrow>
   (savedArticles_own sid rq = Some True) =
     (prefix (u @ ''_'') sid
      \<or> (\<exists>d. resource rq = Some d \<and> d ''userId'' = Some (VStr u))
      \<or> (\<exists>d. request_resource rq = Some d \<and> d ''userId'' = Some (VStr u)))"
  using id_starts_with_uid_prefix [of rq u sid]
  by (cases "id_starts_with_uid sid rq")
     (auto simp add: savedArticles_own_def rule_expr_defs split: option.splits if_splits)

text \<open>
  C6. For a signed-in caller \<open>u\<close> who is not an admin, a read of a document (get), a
  create, an update and a delete (write is create, update and delete) on
  \<open>savedArticles/sid\<close> are allowed exactly when \<open>sid\<close> starts with \<open>u\<close> followed by
  \<open>_\<close>, or the stored document's \<open>userId\<close> is \<open>u\<close>, or the proposed document's
  \<open>userId\<close> is \<open>u\<close>. A query (list) is a request kind of its own, with a statement of
  its own (line 77). Concretely: the document \<open>U1_A1\<close> is writable by \<open>U1\<close> whatever
  its fields; and when the stored document has no \<open>userId\<close>, a caller \<open>U2\<close> who is
  not an admin can write it exactly when the proposed document's \<open>userId\<close> is \<open>U2\<close>
  (line 72), so not when the proposed document has no \<open>userId\<close> or another one.
\<close>

theorem savedArticles_ownership:
  "(auth rq = Some u
      \<and> \<not> (\<exists>p. users rq u = Some p \<and> p ''role'' = Some (VStr ''admin''))
      \<and> op \<noteq> OpList \<longrightarrow>
      permits savedArticles_rules op sid rq =
        (prefix (u @ ''_'') sid
         \<or> (\<exists>d. resource rq = Some d \<and> d ''userId'' = Some (VStr u))
         \<or> (\<exists>d. request_resource rq = Some d \<and> d ''userId'' = Some (VStr u))))
   \<and> (auth rq1 = Some ''U1'' \<and> op1 \<in> {OpCreate, OpUpdate, OpDelete} \<longrightarrow>
        permits savedArticles_rules op1 ''U1_A1'' rq1)
   \<and> (auth rq2 = Some ''U2''
        \<and> \<not> (\<exists>p. users rq2 ''U2'' = Some p \<and> p ''role'' = Some (VStr ''admin''))
        \<and> \<not> (\<exists>d. resource rq2 = Some d \<and> d ''userId'' \<noteq> None)
        \<and> op2 \<in> {OpCreate, OpUpdate, OpDelete} \<longrightarrow>
        permits savedArticles_rules op2 ''U1_A1'' rq2 =
          (\<exists>d. request_resource rq2 = Some d \<and> d ''userId'' = Some (VStr ''U2'')))"
proof (intro conjI impI)
  assume h: "auth rq = Some u
      \<and> \<not> (\<exists>p. users rq u = Some p \<and> p ''role'' = Some (VStr ''admin''))
      \<and> op \<noteq> OpList"
  then have na: "exists_admin rq \<noteq> Some True" by (simp add: exists_admin_iff)
  from h have c: "list_ex (\<lambda>m. covers m op) [Read, Write, Create, Delete]"
    by (cases op) simp_all
  from h na c show "permits savedArticles_rules op sid rq =
        (prefix (u @ ''_'') sid
         \<or> (\<exists>d. resource rq = Some d \<and> d ''userId'' = Some (VStr u))
         \<or> (\<exists>d. request_resource rq = Some d \<and> d ''userId'' = Some (VStr u)))"
    using savedArticles_own_iff [of rq u sid]
    by (simp add: savedArticles_rules_def permits_Cons permits_Nil grants_def
        savedArticles_admin_def savedArticles_list_def)
next
  assume h: "auth rq1 = Some ''U1'' \<and> op1 \<in> {OpCreate, OpUpdate, OpDelete}"
  then have "savedArticles_own ''U1_A1'' rq1 = Some True"
    by (simp add: savedArticles_own_iff)
  with h show "permits savedArticles_rules op1 ''U1_A1'' rq1"
    by (auto simp add: savedArticles_rules_def permits_Cons grants_def)
next
  assume h: "auth rq2 = Some ''U2''
        \<and> \<not> (\<exists>p. users rq2 ''U2'' = Some p \<and> p ''role'' = Some (VStr ''admin''))
        \<and> \<not> (\<exists>d. resource rq2 = Some d \<and> d ''userId'' \<noteq> None)
        \<and> op2 \<in> {OpCreate, OpUpdate, OpDelete}"
  then have na: "exists_admin rq2 \<noteq> Some True" by (simp add: exists_admin_iff)
  from h have "(savedArticles_own ''U1_A1'' rq2 = Some True) =
          (\<exists>d. request_resource rq2 = Some d \<and> d ''userId'' = Some (VStr ''U2''))"
    by (auto simp add: savedArticles_own_iff)
  with h na show "permits savedArticles_rules op2 ''U1_A1'' rq2 =
          (\<exists>d. request_resource rq2 = Some d \<and> d ''userId'' = Some (VStr ''U2''))"
    by (auto simp add: savedArticles_rules_def permits_Cons permits_Nil grants_def
        savedArticles_admin_def savedArticles_list_def)
qed

theorem savedArticles_ownership_witness:
  "permits savedArticles_rules OpGet ''k7''
     \<lparr>auth = Some ''U2'', resource = Some [''userId'' \<mapsto> VStr ''U2''],
      request_resource = None, users = [''U2'' \<mapsto> [''role'' \<mapsto> VStr ''user'']]\<rparr>
   \<and> permits savedArticles_rules OpDelete ''U1_A1''
     \<lparr>auth = Some ''U1'', resource = Some [''articleId'' \<mapsto> VStr ''A1''],
      request_resource = None, users = Map.empty\<rparr>
   \<and> \<not> permits savedArticles_rules OpUpdate ''U1_A1''
     \<lparr>auth = Some ''U2'', resource = Some [''articleId'' \<mapsto> VStr ''A1''],
      request_resource = Some [''articleId'' \<mapsto> VStr ''A2'', ''userId'' \<mapsto> VStr ''U1''],
      users = [''U2'' \<mapsto> [''role'' \<mapsto> VStr ''user'']]\<rparr>"
  using
    savedArticles_ownership [of
      "\<lparr>auth = Some ''U2'', resource = Some [''userId'' \<mapsto> VStr ''U2''],
        request_resource = None, users = [''U2'' \<mapsto> [''role'' \<mapsto> VStr ''user'']]\<rparr>"
      "''U2''" OpGet "''k7''"
      "\<lparr>auth = Some ''U1'', resource = Some [''articleId'' \<mapsto> VStr ''A1''],
        request_resource = None, users = Map.empty\<rparr>"
      OpDelete
      "\<lparr>auth = Some ''U2'', resource = Some [''articleId'' \<mapsto> VStr ''A1''],
        request_resource = Some [''articleId'' \<mapsto> VStr ''A2'', ''userId'' \<mapsto> VStr ''U1''],
        users = [''U2'' \<mapsto> [''role'' \<mapsto> VStr ''user'']]\<rparr>"
      OpUpdate]
  by simp

text \<open>
  As C6 states it, \<open>U1_A1\<close> is not writable by \<open>U2\<close>. It is: the third test of the
  statement (line 72, the proposed document's \<open>userId\<close>) reads data the caller sends.
  A caller \<open>U2\<close> whose stored role is user may create \<open>U1_A1\<close>, and may update the
  stored \<open>U1_A1\<close> that has no \<open>userId\<close>, with a proposed document whose \<open>userId\<close>
  is \<open>U2\<close>.
\<close>

theorem savedArticles_U2_writes_U1_A1:
  "permits savedArticles_rules OpCreate ''U1_A1''
     \<lparr>auth = Some ''U2'', resource = None,
      request_resource = Some [''articleId'' \<mapsto> VStr ''A1'', ''userId'' \<mapsto> VStr ''U2''],
      users = [''U2'' \<mapsto> [''role'' \<mapsto> VStr ''user'']]\<rparr>
   \<and> permits savedArticles_rules OpUpdate ''U1_A1''
     \<lparr>auth = Some ''U2'', resource = Some [''articleId'' \<mapsto> VStr ''A1''],
      request_resource = Some [''articleId'' \<mapsto> VStr ''A1'', ''userId'' \<mapsto> VStr ''U2''],
      users = [''U2'' \<mapsto> [''role'' \<mapsto> VStr ''user'']]\<rparr>
   \<and> exists_admin
     \<lparr>auth = Some ''U2'', resource = None,
      request_resource = Some [''articleId'' \<mapsto> VStr ''A1'', ''userId'' \<mapsto> VStr ''U2''],
      users = [''U2'' \<mapsto> [''role'' \<mapsto> VStr ''user'']]\<rparr> = Some False"
  by (simp add: savedArticles_rules_def permits_Cons grants_def savedArticles_own_def
      id_starts_with_uid_def str_slice_def str_index_def exists_admin_def rule_expr_defs)

subsection \<open>Writer requests\<close>

text \<open>
  C10. The match block of \<open>writerRequests\<close> has statements for \<open>read\<close>, \<open>create\<close>
  and \<open>update\<close> only. No statement covers \<open>delete\<close>, so a delete is denied for every
  request: whoever the caller is, whatever the stored request and the stored roles.
\<close>

theorem writerRequests_delete_denied:
  "\<not> permits writerRequests_rules OpDelete requestId rq
   \<and> \<not> allowed ''writerRequests'' OpDelete requestId rq"
  by (simp add: allowed_def rules_of_def writerRequests_rules_def permits_Cons permits_Nil
      grants_def)

theorem writerRequests_delete_denied_witness:
  "\<not> allowed ''writerRequests'' OpDelete ''r1''
       \<lparr>auth = Some ''adm'', resource = Some [''userId'' \<mapsto> VStr ''adm''],
        request_resource = None, users = [''adm'' \<mapsto> [''role'' \<mapsto> VStr ''admin'']]\<rparr>"
  using
    writerRequests_delete_denied [of "''r1''"
      "\<lparr>auth = Some ''adm'', resource = Some [''userId'' \<mapsto> VStr ''adm''],
        request_resource = None, users = [''adm'' \<mapsto> [''role'' \<mapsto> VStr ''admin'']]\<rparr>"]
  by simp

section \<open>Properties of the session permission cache\<close>

subsection \<open>Deriving permissions\<close>

text \<open>
  C2. \<open>generatePermissions\<close> is a function of the role and of nothing else. For the
  role admin all seven flags are true; for infowriter \<open>canCreateArticles\<close> is true and
  the other six are false; for user all seven are false; and whatever the role, the
  dashboard route is \<open>/dashboard\<close>.
\<close>

theorem generatePermissions_table:
  "generatePermissions (VStr ''admin'') =
     \<lparr>canCreateArticles = True, canManageUsers = True, canAccessAdmin = True,
      canEditAnyArticle = True, canDeleteArticles = True, canApproveWriters = True,
      canViewAnalytics = True, dashboardRoute = ''/dashboard''\<rparr>
   \<and> generatePermissions (VStr ''infowriter'') =
     \<lparr>canCreateArticles = True, canManageUsers = False, canAccessAdmin = False,
      canEditAnyArticle = False, canDeleteArticles = False, canApproveWriters = False,
      canViewAnalytics = False, dashboardRoute = ''/dashboard''\<rparr>
   \<and> generatePermissions (VStr ''user'') =
     \<lparr>canCreateArticles = False, canManageUsers = False, canAccessAdmin = False,
      canEditAnyArticle = False, canDeleteArticles = False, canApproveWriters = False,
      canViewAnalytics = False, dashboardRoute = ''/dashboard''\<rparr>
   \<and> dashboardRoute (generatePermissions r) = ''/dashboard''"
  by (simp add: generatePermissions_def basePermissions_def)

theorem generatePermissions_table_witness:
  "dashboardRoute (generatePermissions (VStr ''editor'')) = ''/dashboard''
   \<and> dashboardRoute (generatePermissions VNull) = ''/dashboard''"
  using generatePermissions_table [of "VStr ''editor''"] generatePermissions_table [of VNull]
  by simp

text \<open>
  C7. In a state whose permissions are the ones derived from the profile's role,
  \<open>isInfoWriter\<close> (can create articles and cannot access the admin area, read off the
  permissions) holds exactly for the role infowriter, \<open>isAdmin\<close> (can access the admin
  area) exactly for admin, and \<open>isUser\<close>, which compares the profile's role, exactly
  for user. This holds for every role value, the three named ones included.
\<close>

theorem role_flags:
  assumes "userProfile st = Some pr"
    and "permissions st = Some (generatePermissions (role pr))"
  shows "(isInfoWriter st \<longleftrightarrow> role pr = VStr ''infowriter'')
       \<and> (isAdmin st \<longleftrightarrow> role pr = VStr ''admin'')
       \<and> (isUser st \<longleftrightarrow> role pr = VStr ''user'')
       \<and> isInfoWriter st =
           (canCreateArticles (generatePermissions (role pr))
            \<and> \<not> canAccessAdmin (generatePermissions (role pr)))
       \<and> isAdmin st = canAccessAdmin (generatePermissions (role pr))"
  using assms
  by (simp add: isInfoWriter_def isAdmin_def isUser_def generatePermissions_def
      basePermissions_def)

theorem role_flags_witness:
  "isInfoWriter
     \<lparr>user = None,
      userProfile = Some
        \<lparr>uid = ''w1'', email = ''w1@x.org'', displayName = VStr ''W'',
         role = VStr ''infowriter'', emailVerified = True, profilePicture = VStr [],
         createdAt = None, updatedAt = None, requestedWriterAccess = None\<rparr>,
      permissions = Some (generatePermissions (VStr ''infowriter'')),
      loading = False, profileLoading = False, localStorage = Map.empty\<rparr>
   \<and> \<not> isAdmin
     \<lparr>user = None,
      userProfile = Some
        \<lparr>uid = ''w1'', email = ''w1@x.org'', displayName = VStr ''W'',
         role = VStr ''infowriter'', emailVerified = True, profilePicture = VStr [],
         createdAt = None, updatedAt = None, requestedWriterAccess = None\<rparr>,
      permissions = Some (generatePermissions (VStr ''infowriter'')),
      loading = False, profileLoading = False, localStorage = Map.empty\<rparr>
   \<and> \<not> isUser
     \<lparr>user = None,
      userProfile = Some
        \<lparr>uid = ''w1'', email = ''w1@x.org'', displayName = VStr ''W'',
         role = VStr ''infowriter'', emailVerified = True, profilePicture = VStr [],
         createdAt = None, updatedAt = None, requestedWriterAccess = None\<rparr>,
      permissions = Some (generatePermissions (VStr ''infowriter'')),
      loading = False, profileLoading = False, localStorage = Map.empty\<rparr>"
  using
    role_flags [of
      "\<lparr>user = None,
        userProfile = Some
          \<lparr>uid = ''w1'', email = ''w1@x.org'', displayName = VStr ''W'',
           role = VStr ''infowriter'', emailVerified = True, profilePicture = VStr [],
           createdAt = None, updatedAt = None, requestedWriterAccess = None\<rparr>,
        permissions = Some (generatePermissions (VStr ''infowriter'')),
        loading = False, profileLoading = False, localStorage = Map.empty\<rparr>"
      "\<lparr>uid = ''w1'', email = ''w1@x.org'', displayName = VStr ''W'',
        role = VStr ''infowriter'', emailVerified = True, profilePicture = VStr [],
        createdAt = None, updatedAt = None, requestedWriterAccess = None\<rparr>"]
  by simp

subsection \<open>Reading the cache\<close>

lemma clearCache_eq:
  "clearCache ls = ls(USER_PROFILE := None, PERMISSIONS := None, LAST_UPDATED := None)"
  by (simp add: clearCache_def CACHE_KEYS_def)

text \<open>
  C8. A non-empty entry under \<open>key\<close> is read at time \<open>now\<close>, with the time stamp \<open>t\<close>
  stored under \<open>LAST_UPDATED\<close>. When \<open>t\<close> is more than 5 minutes (300000 ms) before
  \<open>now\<close>, the read returns \<open>null\<close> and the three cache keys are removed from the
  storage; when the entry is at most 5 minutes old, the read returns the stored text,
  parsed, and leaves the storage as it is.
\<close>

theorem getCachedData_expiry:
  assumes "ls key = Some cached" and "cached \<noteq> []"
    and "ls LAST_UPDATED = Some lastUpdated" and "lastUpdated \<noteq> []"
    and "parseInt lastUpdated = Some t"
  shows "(now - t > 5 * 60 * 1000 \<longrightarrow>
            getCachedData parse parseInt now ls key =
              (None, ls(USER_PROFILE := None, PERMISSIONS := None, LAST_UPDATED := None)))
       \<and> (now - t \<le> 5 * 60 * 1000 \<longrightarrow>
            getCachedData parse parseInt now ls key = (parse cached, ls))"
  using assms by (simp add: getCachedData_def CACHE_EXPIRY_def clearCache_eq)

theorem getCachedData_expiry_witness:
  "getCachedData Some (\<lambda>s. if s = ''1000'' then Some 1000 else None) 301001
     [PERMISSIONS \<mapsto> ''{}'', LAST_UPDATED \<mapsto> ''1000''] PERMISSIONS
     = (None, Map.empty)
   \<and> getCachedData Some (\<lambda>s. if s = ''1000'' then Some 1000 else None) 301000
     [PERMISSIONS \<mapsto> ''{}'', LAST_UPDATED \<mapsto> ''1000''] PERMISSIONS
     = (Some ''{}'', [PERMISSIONS \<mapsto> ''{}'', LAST_UPDATED \<mapsto> ''1000''])"
  using
    getCachedData_expiry [of "[PERMISSIONS \<mapsto> ''{}'', LAST_UPDATED \<mapsto> ''1000'']"
      PERMISSIONS "''{}''" "''1000''" "\<lambda>s. if s = ''1000'' then Some 1000 else None" 1000
      301001 Some]
    getCachedData_expiry [of "[PERMISSIONS \<mapsto> ''{}'', LAST_UPDATED \<mapsto> ''1000'']"
      PERMISSIONS "''{}''" "''1000''" "\<lambda>s. if s = ''1000'' then Some 1000 else None" 1000
      301000 Some]
  by (simp add: USER_PROFILE_def PERMISSIONS_def LAST_UPDATED_def)

subsection \<open>Loading the profile\<close>

lemma consistent_storeProfile: "consistent (storeProfile pf t1 t2 p st)"
  by (simp add: consistent_def storeProfile_def Let_def)

lemma loadUserProfile_returns:
  "\<exists>st'. loadUserProfile pf fu reloaded fetched t1 t2 st = Inr st'"
  by (simp add: loadUserProfile_def Let_def split: sum.splits)

lemma consistent_loadUserProfile:
  "loadUserProfile pf fu reloaded fetched t1 t2 st = Inr st' \<Longrightarrow> consistent st'"
  by (auto simp add: loadUserProfile_def loadUserProfile_try_def Let_def consistent_def
      storeProfile_def dropProfile_def split: sum.splits option.splits)

lemma consistent_initFromCache: "consistent st \<Longrightarrow> consistent (initFromCache pf n1 n2 st)"
  by (auto simp add: initFromCache_def consistent_def split: prod.splits option.splits)

lemma consistent_step:
  assumes "consistent st" and "step pf ev st = Inr st'"
  shows "consistent st'"
proof (cases ev)
  case (InitFromCache n1 n2)
  with assms show ?thesis using consistent_initFromCache by auto
next
  case (AuthStateChanged fu rl ft t1 t2)
  with assms show ?thesis
    by (cases fu)
       (auto simp add: authStateChanged_def Let_def consistent_def dropProfile_def
          split: sum.splits dest!: consistent_loadUserProfile)
next
  case (ProfileSnapshot sn t1 t2)
  with assms show ?thesis
    by (auto simp add: profileSnapshot_def consistent_storeProfile
        split: option.splits if_splits sum.splits)
next
  case (RefreshProfile cu rl ft t1 t2)
  with assms show ?thesis
    by (auto simp add: refreshProfile_def split: option.splits dest: consistent_loadUserProfile)
qed

lemma consistent_run: "consistent st \<Longrightarrow> consistent (run pf evs st)"
proof (induction evs arbitrary: st)
  case Nil
  then show ?case by simp
next
  case (Cons ev evs)
  show ?case
  proof (cases "step pf ev st")
    case (Inl e)
    with Cons show ?thesis by simp
  next
    case (Inr st')
    with Cons.prems have "consistent st'" by (simp add: consistent_step)
    with Inr Cons.IH show ?thesis by simp
  qed
qed

lemma loadUserProfile_fails:
  assumes "isl reloaded \<or> isl fetched \<or> fetched = Inr None"
  shows "loadUserProfile pf fu reloaded fetched t1 t2 st =
     Inr (st\<lparr>userProfile := None, permissions := None,
            localStorage := clearCache (localStorage st), profileLoading := False\<rparr>)"
  using assms
  by (auto simp add: loadUserProfile_def loadUserProfile_try_def Let_def dropProfile_def isl_def
      split: sum.splits option.splits)

text \<open>
  C9. \<open>loadUserProfile\<close> always returns: its promise resolves with a state, whatever
  the reload and the fetch do. When the reload or the fetch throws, or the profile
  document does not exist, that state has no profile and no permissions, and the three
  cache keys are gone from the storage. The state it returns never has permissions
  without a profile, and neither has any state the provider reaches from its initial
  state by its callbacks.
\<close>

theorem loadUserProfile_failure:
  "(\<exists>st'. loadUserProfile pf fu reloaded fetched t1 t2 st = Inr st'
        \<and> \<not> (permissions st' \<noteq> None \<and> userProfile st' = None))
   \<and> (isl reloaded \<or> isl fetched \<or> fetched = Inr None \<longrightarrow>
        (\<exists>st'. loadUserProfile pf fu reloaded fetched t1 t2 st = Inr st'
           \<and> userProfile st' = None \<and> permissions st' = None
           \<and> localStorage st' =
               (localStorage st)(USER_PROFILE := None, PERMISSIONS := None, LAST_UPDATED := None)
           \<and> localStorage st' USER_PROFILE = None
           \<and> localStorage st' PERMISSIONS = None
           \<and> localStorage st' LAST_UPDATED = None))
   \<and> \<not> (permissions (run pf evs (initialState ls)) \<noteq> None
        \<and> userProfile (run pf evs (initialState ls)) = None)"
proof (intro conjI impI)
  obtain st' where r: "loadUserProfile pf fu reloaded fetched t1 t2 st = Inr st'"
    using loadUserProfile_returns by blast
  then have "consistent st'" by (rule consistent_loadUserProfile)
  with r show "\<exists>st'. loadUserProfile pf fu reloaded fetched t1 t2 st = Inr st'
        \<and> \<not> (permissions st' \<noteq> None \<and> userProfile st' = None)"
    by (auto simp add: consistent_def)
next
  assume "isl reloaded \<or> isl fetched \<or> fetched = Inr None"
  then show "\<exists>st'. loadUserProfile pf fu reloaded fetched t1 t2 st = Inr st'
           \<and> userProfile st' = None \<and> permissions st' = None
           \<and> localStorage st' =
               (localStorage st)(USER_PROFILE := None, PERMISSIONS := None, LAST_UPDATED := None)
           \<and> localStorage st' USER_PROFILE = None
           \<and> localStorage st' PERMISSIONS = None
           \<and> localStorage st' LAST_UPDATED = None"
    by (simp add: loadUserProfile_fails clearCache_eq)
next
  have "consistent (initialState ls)" by (simp add: consistent_def initialState_def)
  then have "consistent (run pf evs (initialState ls))" by (rule consistent_run)
  then show "\<not> (permissions (run pf evs (initialState ls)) \<noteq> None
        \<and> userProfile (run pf evs (initialState ls)) = None)"
    by (auto simp add: consistent_def)
qed

theorem loadUserProfile_failure_witness:
  "\<exists>st'.
     loadUserProfile
       \<lparr>json_of_profile = (\<lambda>p. ''{}''), json_of_permissions = (\<lambda>c. ''{}''),
        profile_of_json = (\<lambda>s. None), permissions_of_json = (\<lambda>s. None),
        parse_int = (\<lambda>s. None), int_to_string = (\<lambda>n. ''0'')\<rparr>
       \<lparr>fb_uid = ''u1'', fb_email = Some ''ann@x.org'', fb_displayName = None,
        fb_emailVerified = True\<rparr>
       (Inr ()) (Inl FetchFailed) 5 6
       \<lparr>user = None,
        userProfile = Some
          \<lparr>uid = ''u1'', email = ''ann@x.org'', displayName = VStr ''ann'',
           role = VStr ''admin'', emailVerified = True, profilePicture = VStr [],
           createdAt = None, updatedAt = None, requestedWriterAccess = None\<rparr>,
        permissions = Some (generatePermissions (VStr ''admin'')),
        loading = True, profileLoading = False,
        localStorage = [PERMISSIONS \<mapsto> ''{}'', LAST_UPDATED \<mapsto> ''0'']\<rparr> = Inr st'
     \<and> userProfile st' = None \<and> permissions st' = None
     \<and> localStorage st' PERMISSIONS = None
     \<and> localStorage st' LAST_UPDATED = None"
  using
    loadUserProfile_failure [of
       "\<lparr>json_of_profile = (\<lambda>p. ''{}''), json_of_permissions = (\<lambda>c. ''{}''),
        profile_of_json = (\<lambda>s. None), permissions_of_json = (\<lambda>s. None),
        parse_int = (\<lambda>s. None), int_to_string = (\<lambda>n. ''0'')\<rparr>"
       "\<lparr>fb_uid = ''u1'', fb_email = Some ''ann@x.org'', fb_displayName = None,
        fb_emailVerified = True\<rparr>"
       "Inr ()" "Inl FetchFailed" 5 6
       "\<lparr>user = None,
        userProfile = Some
          \<lparr>uid = ''u1'', email = ''ann@x.org'', displayName = VStr ''ann'',
           role = VStr ''admin'', emailVerified = True, profilePicture = VStr [],
           createdAt = None, updatedAt = None, requestedWriterAccess = None\<rparr>,
        permissions = Some (generatePermissions (VStr ''admin'')),
        loading = True, profileLoading = False,
        localStorage = [PERMISSIONS \<mapsto> ''{}'', LAST_UPDATED \<mapsto> ''0'']\<rparr>"
       "[]" Map.empty]
  by auto

end
